theory Spec2Isabelle
  imports Complex_Main "HOL-Library.AList" "HOL-Library.Multiset"
begin

section \<open>Data model of the ledger store\<close>

text \<open>
  The store is the React provider \<^verbatim>\<open>AppProvider\<close>. A transaction is the TypeScript
  \<^verbatim>\<open>Transaction\<close>; its \<^verbatim>\<open>date\<close> is represented by the time value that
  \<^verbatim>\<open>new Date(date).getTime()\<close> yields (milliseconds), which is the only way the store
  ever reads it, so the model covers transactions whose date parses. Counts of notes are
  integers. \<^verbatim>\<open>NoteCounts\<close> is a JavaScript object keyed by denomination: an association
  list whose first binding of a key is the object's property, read with \<open>map_of\<close> and
  written with \<open>AList.update\<close>. A transaction without a breakdown and one with the empty
  breakdown behave alike in every operation below, so the field is not optional here.
\<close>

datatype TransactionType = Credit | Debit

datatype PaymentMethod = Cash | Upi

type_synonym NoteCounts = "(nat \<times> int) list"

record Transaction =
  id_tx :: string
  date :: int
  type_tx :: TransactionType
  paymentMethod :: PaymentMethod
  amount :: rat
  location :: string
  company :: string
  person :: string
  recordedBy :: string
  notes_tx :: string
  breakdown :: NoteCounts

text \<open>The user that \<^verbatim>\<open>getCurrentUser\<close> reads; an absent field is the empty string.\<close>

record User =
  displayName :: string
  email :: string

text \<open>
  The provider's state: the two \<^verbatim>\<open>useState\<close> cells, the signed-in user that
  \<^verbatim>\<open>getCurrentUser\<close> finds (\<open>None\<close> when nobody is signed in), and the messages
  written with \<^verbatim>\<open>console.error\<close>. The remote mirror and \<^verbatim>\<open>syncStatus\<close> never
  touch the list or the vault and are left out.
\<close>

record Ledger =
  allTransactions :: "Transaction list"
  vault :: NoteCounts
  currentUser :: "User option"
  consoleErrors :: "string list"

text \<open>\<^verbatim>\<open>x || 0\<close> on a count that may be \<^verbatim>\<open>undefined\<close>.\<close>

definition orZero :: "int option \<Rightarrow> int" where
  "orZero x = (case x of None \<Rightarrow> 0 | Some c \<Rightarrow> c)"

text \<open>The entries that \<^verbatim>\<open>for (const denom in obj)\<close> visits: every key once, with its value.\<close>

definition entries :: "NoteCounts \<Rightarrow> (nat \<times> int) list" where
  "entries nc = AList.clearjunk nc"

definition initializeVault :: "nat list \<Rightarrow> NoteCounts" where
  "initializeVault DENOMINATIONS = fold (\<lambda>d freshVault. AList.update d 0 freshVault) DENOMINATIONS []"

definition currentUserName :: "User \<Rightarrow> string" where
  "currentUserName u =
     (if displayName u \<noteq> [] then displayName u
      else if email u \<noteq> [] then email u
      else ''Unknown User'')"

text \<open>The list exposed to consumers: \<^verbatim>\<open>allTransactions\<close> filtered by the current user.\<close>

definition transactions :: "Ledger \<Rightarrow> Transaction list" where
  "transactions st =
     filter (\<lambda>tx. case currentUser st of
                    None \<Rightarrow> False
                  | Some u \<Rightarrow> recordedBy tx = currentUserName u)
            (allTransactions st)"

text \<open>
  \<^verbatim>\<open>xs.sort((a, b) => new Date(b.date).getTime() - new Date(a.date).getTime())\<close>:
  a stable sort, latest date first.
\<close>

definition sortByDateDesc :: "Transaction list \<Rightarrow> Transaction list" where
  "sortByDateDesc xs = sort_key (\<lambda>tx. - date tx) xs"

section \<open>Persisted state and the load effect\<close>

text \<open>
  What \<^verbatim>\<open>JSON.parse\<close> returns. A number is a finite value or one of the three
  non-finite ones. A property key that is the decimal numeral of a natural number is
  \<open>Index\<close> of that number (so \<^verbatim>\<open>obj[500]\<close> reads \<open>Index 500\<close>); every other key is a
  \<open>Name\<close>. A property that is absent reads as \<open>None\<close> (\<^verbatim>\<open>undefined\<close>).
\<close>

datatype jsnumber = Finite rat | PosInfinity | NegInfinity | NaN

datatype key = Index nat | Name string

datatype json =
    JNull
  | JBool bool
  | JNumber jsnumber
  | JString string
  | JArray "json list"
  | JObject "(key \<times> json) list"

text \<open>
  An item of \<^verbatim>\<open>localStorage\<close> is a text. It is represented by what \<^verbatim>\<open>JSON.parse\<close>
  does with it: \<open>Malformed s\<close> is a text \<open>s\<close> on which it throws, \<open>Serialized j\<close> a text
  for which it returns \<open>j\<close>. The empty text is malformed, and it is the only falsy one.
\<close>

datatype stored = Malformed string | Serialized json

record Storage =
  item_transactions :: "stored option"
  item_vault :: "stored option"

text \<open>Reading a property of an object or an array the store has already checked.\<close>

fun getProp :: "json \<Rightarrow> key \<Rightarrow> json option" where
  "getProp (JObject kvs) k = map_of kvs k"
| "getProp (JArray xs) (Index i) = (if i < length xs then Some (xs ! i) else None)"
| "getProp _ _ = None"

fun truthy :: "json \<Rightarrow> bool" where
  "truthy JNull = False"
| "truthy (JBool b) = b"
| "truthy (JNumber (Finite q)) = (q \<noteq> 0)"
| "truthy (JNumber NaN) = False"
| "truthy (JNumber PosInfinity) = True"
| "truthy (JNumber NegInfinity) = True"
| "truthy (JString s) = (s \<noteq> [])"
| "truthy (JArray xs) = True"
| "truthy (JObject kvs) = True"

text \<open>\<^verbatim>\<open>typeof v === 'object'\<close>, which holds of \<^verbatim>\<open>null\<close> and of arrays too.\<close>

fun typeofObject :: "json \<Rightarrow> bool" where
  "typeofObject JNull = True"
| "typeofObject (JArray xs) = True"
| "typeofObject (JObject kvs) = True"
| "typeofObject _ = False"

text \<open>
  \<^verbatim>\<open>typeof count === 'number' && isFinite(count) && count >= 0\<close>, and then
  \<^verbatim>\<open>Math.floor(count)\<close>; \<open>None\<close> when the test fails and nothing is stored.
\<close>

definition sanitizeCount :: "json option \<Rightarrow> int option" where
  "sanitizeCount rawCount =
     (case rawCount of
        Some (JNumber (Finite q)) \<Rightarrow> if q \<ge> 0 then Some \<lfloor>q\<rfloor> else None
      | _ \<Rightarrow> None)"

definition sanitizeBreakdown :: "nat list \<Rightarrow> PaymentMethod \<Rightarrow> json option \<Rightarrow> NoteCounts" where
  "sanitizeBreakdown DENOMINATIONS method rawBreakdown =
     (case rawBreakdown of
        None \<Rightarrow> []
      | Some b \<Rightarrow>
          if method = Cash \<and> truthy b \<and> typeofObject b
          then fold (\<lambda>denom sanitizedBreakdown.
                       case sanitizeCount (getProp b (Index denom)) of
                         Some c \<Rightarrow> AList.update denom c sanitizedBreakdown
                       | None \<Rightarrow> sanitizedBreakdown)
                    DENOMINATIONS []
          else [])"

definition stringOr :: "string \<Rightarrow> json option \<Rightarrow> string" where
  "stringOr dflt v = (case v of Some (JString s) \<Rightarrow> s | _ \<Rightarrow> dflt)"

text \<open>
  The migration of one persisted entry; \<open>None\<close> is the discarded entry. \<open>getTime v\<close>
  stands for \<^verbatim>\<open>new Date(v).getTime()\<close>, with \<open>None\<close> for \<^verbatim>\<open>NaN\<close>, and \<open>now\<close> for the
  clock that supplies the default date.
\<close>

definition migrate :: "(json \<Rightarrow> int option) \<Rightarrow> int \<Rightarrow> nat list \<Rightarrow> json \<Rightarrow> Transaction option" where
  "migrate getTime now DENOMINATIONS tx =
     (if \<not> truthy tx \<or> \<not> typeofObject tx then None
      else case getProp tx (Name ''id'') of
        Some (JString i) \<Rightarrow>
          if i = [] then None
          else
            (let method = (case getProp tx (Name ''paymentMethod'') of
                             Some (JString s) \<Rightarrow> if s = ''upi'' then Upi else Cash
                           | _ \<Rightarrow> Cash)
             in Some \<lparr>id_tx = i,
                      date = (case getProp tx (Name ''date'') of
                                Some d \<Rightarrow> (if truthy d
                                           then (case getTime d of Some t \<Rightarrow> t | None \<Rightarrow> now)
                                           else now)
                              | None \<Rightarrow> now),
                      type_tx = (case getProp tx (Name ''type'') of
                                   Some (JString s) \<Rightarrow> if s = ''debit'' then Debit else Credit
                                 | _ \<Rightarrow> Credit),
                      paymentMethod = method,
                      amount = (case getProp tx (Name ''amount'') of
                                  Some (JNumber (Finite q)) \<Rightarrow> q
                                | _ \<Rightarrow> 0),
                      location = stringOr ''NA'' (getProp tx (Name ''location'')),
                      company = stringOr ''NA'' (getProp tx (Name ''company'')),
                      person = stringOr [] (getProp tx (Name ''person'')),
                      recordedBy = stringOr ''system'' (getProp tx (Name ''recordedBy'')),
                      notes_tx = stringOr [] (getProp tx (Name ''notes'')),
                      breakdown = sanitizeBreakdown DENOMINATIONS method
                                    (getProp tx (Name ''breakdown''))\<rparr>)
      | _ \<Rightarrow> None)"

text \<open>The two halves of the \<^verbatim>\<open>try\<close> block; \<open>None\<close> is the exception of \<^verbatim>\<open>JSON.parse\<close>.\<close>

definition loadTransactions ::
  "(json \<Rightarrow> int option) \<Rightarrow> int \<Rightarrow> nat list \<Rightarrow> stored option \<Rightarrow> Transaction list option" where
  "loadTransactions getTime now DENOMINATIONS storedTransactions =
     (case storedTransactions of
        None \<Rightarrow> Some []
      | Some (Malformed s) \<Rightarrow> if s = [] then Some [] else None
      | Some (Serialized parsedTransactions) \<Rightarrow>
          Some (case parsedTransactions of
                  JArray xs \<Rightarrow> List.map_filter (migrate getTime now DENOMINATIONS) xs
                | _ \<Rightarrow> []))"

definition loadVault :: "nat list \<Rightarrow> stored option \<Rightarrow> NoteCounts option" where
  "loadVault DENOMINATIONS storedVault =
     (case storedVault of
        None \<Rightarrow> Some (initializeVault DENOMINATIONS)
      | Some (Malformed s) \<Rightarrow> if s = [] then Some (initializeVault DENOMINATIONS) else None
      | Some (Serialized parsedVault) \<Rightarrow>
          Some (case parsedVault of
                  JObject kvs \<Rightarrow>
                    fold (\<lambda>denom sanitizedVault.
                            case sanitizeCount (getProp parsedVault (Index denom)) of
                              Some c \<Rightarrow> AList.update denom c sanitizedVault
                            | None \<Rightarrow> sanitizedVault)
                         DENOMINATIONS (initializeVault DENOMINATIONS)
                | _ \<Rightarrow> initializeVault DENOMINATIONS))"

text \<open>The \<^verbatim>\<open>catch\<close> block of the load effect.\<close>

definition resetState :: "nat list \<Rightarrow> Storage \<Rightarrow> Ledger \<Rightarrow> Storage \<times> Ledger" where
  "resetState DENOMINATIONS ls st =
     (ls\<lparr>item_transactions := None, item_vault := None\<rparr>,
      st\<lparr>consoleErrors := consoleErrors st @
            [''CRITICAL: Corrupted localStorage data detected. Resetting application state.''],
         allTransactions := [],
         vault := initializeVault DENOMINATIONS\<rparr>)"

text \<open>
  The load effect: the transactions are parsed, migrated, sorted and set; then the
  vault is parsed, sanitized and set; an exception at either point runs the
  \<^verbatim>\<open>catch\<close> block. The function returns in every case: nothing leaves the effect.
\<close>

definition loadFromLocalStorage ::
  "(json \<Rightarrow> int option) \<Rightarrow> int \<Rightarrow> nat list \<Rightarrow> Storage \<Rightarrow> Ledger \<Rightarrow> Storage \<times> Ledger" where
  "loadFromLocalStorage getTime now DENOMINATIONS ls st =
     (case loadTransactions getTime now DENOMINATIONS (item_transactions ls) of
        None \<Rightarrow> resetState DENOMINATIONS ls st
      | Some finalTransactions \<Rightarrow>
          (let st1 = st\<lparr>allTransactions := sortByDateDesc finalTransactions\<rparr>
           in case loadVault DENOMINATIONS (item_vault ls) of
                None \<Rightarrow> resetState DENOMINATIONS ls st1
              | Some finalVault \<Rightarrow> (ls, st1\<lparr>vault := finalVault\<rparr>)))"

text \<open>
  The effect that saves the vault: \<^verbatim>\<open>JSON.stringify(vault)\<close> writes every key with its
  count, and the text parses back to that object.
\<close>

definition vaultJson :: "NoteCounts \<Rightarrow> json" where
  "vaultJson v = JObject (map (\<lambda>(d, c). (Index d, JNumber (Finite (of_int c)))) (entries v))"

definition saveVault :: "Ledger \<Rightarrow> Storage \<Rightarrow> Storage" where
  "saveVault st ls = ls\<lparr>item_vault := Some (Serialized (vaultJson (vault st)))\<rparr>"

section \<open>addTransaction\<close>

text \<open>The body of the \<^verbatim>\<open>setVault\<close> updater of \<^verbatim>\<open>addTransaction\<close>.\<close>

definition vaultAfterAdd :: "Transaction \<Rightarrow> NoteCounts \<Rightarrow> NoteCounts" where
  "vaultAfterAdd newTransaction prevVault =
     fold (\<lambda>(denomNum, count) updatedVault.
             case type_tx newTransaction of
               Credit \<Rightarrow> AList.update denomNum (orZero (map_of updatedVault denomNum) + count) updatedVault
             | Debit \<Rightarrow> AList.update denomNum (orZero (map_of updatedVault denomNum) - count) updatedVault)
          (entries (breakdown newTransaction)) prevVault"

text \<open>
  \<open>newId\<close> is the generated \<^verbatim>\<open>txn_<time>_<random>\<close> and \<open>now\<close> the clock; both
  overwrite whatever the caller's data holds.
\<close>

definition addTransaction :: "string \<Rightarrow> int \<Rightarrow> Transaction \<Rightarrow> Ledger \<Rightarrow> Ledger" where
  "addTransaction newId now newTransactionData st =
     (let newTransaction = newTransactionData\<lparr>id_tx := newId, date := now\<rparr>
      in st\<lparr>allTransactions := sortByDateDesc (allTransactions st @ [newTransaction]),
             vault := (if paymentMethod newTransaction = Cash
                       then vaultAfterAdd newTransaction (vault st)
                       else vault st)\<rparr>)"

section \<open>updateTransaction\<close>

text \<open>
  The two loops of the \<^verbatim>\<open>setVault\<close> updater of \<^verbatim>\<open>updateTransaction\<close>: the
  original record's effect is taken back, then the new record's effect is applied. Both
  skip a key that is not in \<^verbatim>\<open>DENOMINATIONS\<close>, a constant of the repository's
  \<^verbatim>\<open>constants\<close> module, which the functions below take as a parameter.
\<close>

definition revertOriginal :: "nat list \<Rightarrow> Transaction \<Rightarrow> NoteCounts \<Rightarrow> NoteCounts" where
  "revertOriginal DENOMINATIONS originalTransaction vault0 =
     (if paymentMethod originalTransaction = Cash
      then fold (\<lambda>denom newVault.
                   if denom \<in> set DENOMINATIONS
                   then (let count = orZero (map_of (breakdown originalTransaction) denom)
                         in case type_tx originalTransaction of
                              Credit \<Rightarrow> AList.update denom (orZero (map_of newVault denom) - count) newVault
                            | Debit \<Rightarrow> AList.update denom (orZero (map_of newVault denom) + count) newVault)
                   else newVault)
                (map fst (entries (breakdown originalTransaction))) vault0
      else vault0)"

definition applyUpdated :: "nat list \<Rightarrow> Transaction \<Rightarrow> NoteCounts \<Rightarrow> NoteCounts" where
  "applyUpdated DENOMINATIONS updatedTransaction vault0 =
     (if paymentMethod updatedTransaction = Cash
      then fold (\<lambda>denom newVault.
                   if denom \<in> set DENOMINATIONS
                   then (let count = orZero (map_of (breakdown updatedTransaction) denom)
                         in case type_tx updatedTransaction of
                              Credit \<Rightarrow> AList.update denom (orZero (map_of newVault denom) + count) newVault
                            | Debit \<Rightarrow> AList.update denom (orZero (map_of newVault denom) - count) newVault)
                   else newVault)
                (map fst (entries (breakdown updatedTransaction))) vault0
      else vault0)"

text \<open>
  The original record is looked up in the filtered list \<^verbatim>\<open>transactions\<close>; the
  replacement runs over the whole of \<^verbatim>\<open>allTransactions\<close>.
\<close>

definition updateTransaction :: "nat list \<Rightarrow> Transaction \<Rightarrow> Ledger \<Rightarrow> Ledger" where
  "updateTransaction DENOMINATIONS updatedTransaction st =
     (let st1 = (case find (\<lambda>tx. id_tx tx = id_tx updatedTransaction) (transactions st) of
                   None \<Rightarrow>
                     st\<lparr>consoleErrors := consoleErrors st @
                          [''Original transaction not found for vault update.'']\<rparr>
                 | Some originalTransaction \<Rightarrow>
                     st\<lparr>vault := applyUpdated DENOMINATIONS updatedTransaction
                                    (revertOriginal DENOMINATIONS originalTransaction (vault st))\<rparr>)
      in st1\<lparr>allTransactions :=
                sortByDateDesc (map (\<lambda>tx. if id_tx tx = id_tx updatedTransaction
                                           then updatedTransaction else tx)
                                    (allTransactions st))\<rparr>)"

section \<open>deleteTransactionsByIds\<close>

definition revertDeleted :: "Transaction \<Rightarrow> NoteCounts \<Rightarrow> NoteCounts" where
  "revertDeleted tx vault0 =
     (if paymentMethod tx = Cash
      then fold (\<lambda>(denomNum, count) updatedVault.
                   case type_tx tx of
                     Credit \<Rightarrow> AList.update denomNum (orZero (map_of updatedVault denomNum) - count) updatedVault
                   | Debit \<Rightarrow> AList.update denomNum (orZero (map_of updatedVault denomNum) + count) updatedVault)
                (entries (breakdown tx)) vault0
      else vault0)"

definition deleteTransactionsByIds :: "string list \<Rightarrow> Ledger \<Rightarrow> Ledger" where
  "deleteTransactionsByIds ids st =
     (let transactionsToDelete = filter (\<lambda>tx. id_tx tx \<in> set ids) (transactions st)
      in st\<lparr>vault := fold revertDeleted transactionsToDelete (vault st),
             allTransactions := filter (\<lambda>tx. id_tx tx \<notin> set ids) (allTransactions st)\<rparr>)"

section \<open>Sequences of calls\<close>

text \<open>
  A call of one of the three operations of the store. Every call is made on the state
  with which the provider last rendered: \<^verbatim>\<open>updateTransaction\<close> and
  \<^verbatim>\<open>deleteTransactionsByIds\<close> read the filtered list of that render, and the
  state setters have run before the next call is made.
\<close>

datatype Call =
    Add string int Transaction
  | Update Transaction
  | Delete "string list"

fun call :: "nat list \<Rightarrow> Call \<Rightarrow> Ledger \<Rightarrow> Ledger" where
  "call DENOMINATIONS (Add newId now newTransactionData) st = addTransaction newId now newTransactionData st"
| "call DENOMINATIONS (Update updatedTransaction) st = updateTransaction DENOMINATIONS updatedTransaction st"
| "call DENOMINATIONS (Delete ids) st = deleteTransactionsByIds ids st"

fun run :: "nat list \<Rightarrow> Call list \<Rightarrow> Ledger \<Rightarrow> Ledger" where
  "run DENOMINATIONS [] st = st"
| "run DENOMINATIONS (c # cs) st = run DENOMINATIONS cs (call DENOMINATIONS c st)"

text \<open>The state of a freshly mounted provider, before anything is loaded.\<close>

definition initialLedger :: "nat list \<Rightarrow> User option \<Rightarrow> Ledger" where
  "initialLedger DENOMINATIONS user =
     \<lparr>allTransactions = [], vault = initializeVault DENOMINATIONS,
      currentUser = user, consoleErrors = []\<rparr>"

section \<open>What the specification compares the vault with\<close>

text \<open>A denomination's count in a vault; an absent key counts as zero.\<close>

definition vaultCount :: "NoteCounts \<Rightarrow> nat \<Rightarrow> int" where
  "vaultCount v d = orZero (map_of v d)"

text \<open>
  The specification's derived vault: the signed sum, over all cash transactions, of the
  breakdown count of a denomination (credit counts positive, debit negative).
\<close>

definition signedCount :: "nat \<Rightarrow> Transaction \<Rightarrow> int" where
  "signedCount d tx =
     (if paymentMethod tx = Cash
      then (case type_tx tx of
              Credit \<Rightarrow> orZero (map_of (breakdown tx) d)
            | Debit \<Rightarrow> - orZero (map_of (breakdown tx) d))
      else 0)"

definition ledgerSum :: "nat \<Rightarrow> Transaction list \<Rightarrow> int" where
  "ledgerSum d txs = sum_list (map (signedCount d) txs)"



definition sortedByDateDesc :: "Transaction list \<Rightarrow> bool" where
  "sortedByDateDesc xs = sorted_wrt (\<lambda>a b. date b \<le> date a) xs"

section \<open>A small ledger\<close>

text \<open>
  Concrete data at which the theorems below are instantiated: four denominations, a
  signed-in user, one record of hers and one recorded under another name.
\<close>

definition exampleDenominations :: "nat list" where
  "exampleDenominations = [500, 100, 50, 20]"

definition alice :: User where
  "alice = \<lparr>displayName = ''alice'', email = []\<rparr>"

definition aliceCredit :: Transaction where
  "aliceCredit =
     \<lparr>id_tx = ''txn_1'', date = 1, type_tx = Credit, paymentMethod = Cash, amount = 500,
      location = ''NA'', company = ''NA'', person = [], recordedBy = ''alice'',
      notes_tx = [], breakdown = [(500, 1)]\<rparr>"

definition bobCredit :: Transaction where
  "bobCredit = aliceCredit\<lparr>id_tx := ''txn_2'', date := 2, recordedBy := ''bob''\<rparr>"

definition aliceLedger :: Ledger where
  "aliceLedger =
     \<lparr>allTransactions = [bobCredit, aliceCredit],
      vault = [(500, 2), (100, 0), (50, 0), (20, 0)],
      currentUser = Some alice, consoleErrors = []\<rparr>"

text \<open>
  A raw breakdown with a negative, a non-numeric and a fractional count, and a storage
  whose transaction item does not parse while its vault item does.
\<close>

definition rawBreakdown :: json where
  "rawBreakdown =
     JObject [(Index 100, JNumber (Finite (- 5))), (Index 50, JString ''x''),
              (Index 20, JNumber (Finite (37 / 10)))]"

definition corruptedStorage :: Storage where
  "corruptedStorage =
     \<lparr>item_transactions = Some (Malformed ''not json''),
      item_vault = Some (Serialized (JObject [(Index 500, JNumber (Finite 3))]))\<rparr>"

section \<open>Lemmas on the vault arithmetic\<close>

lemma map_of_fold_entries:
  "distinct (map fst es) \<Longrightarrow>
   map_of (fold (\<lambda>(k, c) v. AList.update k (orZero (map_of v k) + g c) v) es w) d =
     (case map_of es d of
        None \<Rightarrow> map_of w d
      | Some c \<Rightarrow> Some (orZero (map_of w d) + g c))"
proof (induction es arbitrary: w)
  case Nil
  then show ?case by simp
next
  case (Cons e es)
  obtain k c where e: "e = (k, c)" by (cases e)
  from Cons.prems e have notin: "k \<notin> fst ` set es" and dist: "distinct (map fst es)"
    by auto
  from notin have none: "map_of es k = None"
    by (simp add: map_of_eq_None_iff)
  show ?case
    using Cons.IH [OF dist] none
    by (auto simp: e update_conv' split: option.splits)
qed


lemma map_of_fold_entries_minus:
  "distinct (map fst es) \<Longrightarrow>
   map_of (fold (\<lambda>(k, c) v. AList.update k (orZero (map_of v k) - c) v) es w) d =
     (case map_of es d of
        None \<Rightarrow> map_of w d
      | Some c \<Rightarrow> Some (orZero (map_of w d) - c))"
  using map_of_fold_entries [where g = uminus and es = es and w = w and d = d]
  by (simp cong: option.case_cong)


lemma orZero_simps [simp]: "orZero None = 0" "orZero (Some c) = c"
  by (simp_all add: orZero_def)


lemma map_of_entries: "map_of (entries nc) = map_of nc"
  by (simp add: entries_def map_of_clearjunk)

lemma distinct_entries: "distinct (map fst (entries nc))"
  by (simp add: entries_def)


lemma orZero_map_of_key:
  "(case map_of nc d of None \<Rightarrow> x | Some c \<Rightarrow> y c) =
     (if d \<in> fst ` set nc then y (orZero (map_of nc d)) else x)"
proof (cases "map_of nc d")
  case None
  then have "d \<notin> fst ` set nc"
    by (simp add: map_of_eq_None_iff)
  with None show ?thesis by simp
next
  case (Some c)
  then have "d \<in> fst ` set nc"
    by (metis map_of_eq_None_iff option.distinct(1))
  with Some show ?thesis by simp
qed


lemma map_of_vaultAfterAdd:
  assumes "paymentMethod tx = Cash"
  shows "map_of (vaultAfterAdd tx v) d =
     (if d \<in> fst ` set (breakdown tx) then Some (vaultCount v d + signedCount d tx)
      else map_of v d)"
proof (cases "type_tx tx")
  case Credit
  have "vaultAfterAdd tx v =
      fold (\<lambda>(k, c) v. AList.update k (orZero (map_of v k) + c) v) (entries (breakdown tx)) v"
    by (simp add: vaultAfterAdd_def Credit)
  then show ?thesis
    using assms
    by (simp add: map_of_fold_entries [where g = "\<lambda>c. c", simplified, OF distinct_entries]
        map_of_fold_entries_minus [OF distinct_entries] map_of_entries orZero_map_of_key
        vaultCount_def signedCount_def Credit)
next
  case Debit
  have "vaultAfterAdd tx v =
      fold (\<lambda>(k, c) v. AList.update k (orZero (map_of v k) + - c) v) (entries (breakdown tx)) v"
    by (simp add: vaultAfterAdd_def Debit)
  then show ?thesis
    using assms
    by (simp add: map_of_fold_entries [where g = "\<lambda>c. c", simplified, OF distinct_entries]
        map_of_fold_entries_minus [OF distinct_entries] map_of_entries orZero_map_of_key
        vaultCount_def signedCount_def Debit)
qed









lemma map_of_initializeVault_aux:
  "map_of (fold (\<lambda>d v. AList.update d 0 v) ds w) d =
     (if d \<in> set ds then Some 0 else map_of w d)"
  by (induction ds arbitrary: w) (auto simp: update_conv')

lemma map_of_initializeVault:
  "map_of (initializeVault ds) d = (if d \<in> set ds then Some 0 else None)"
  by (simp add: initializeVault_def map_of_initializeVault_aux)

lemma vaultCount_initializeVault: "vaultCount (initializeVault ds) d = 0"
  by (simp add: map_of_initializeVault vaultCount_def)

lemma signedCount_stamp [simp]:
  "signedCount d (tx\<lparr>id_tx := newId, date := now\<rparr>) = signedCount d tx"
  by (simp add: signedCount_def split: TransactionType.splits)

lemma vault_addTransaction_cash:
  "paymentMethod newTransactionData = Cash \<Longrightarrow>
   map_of (vault (addTransaction newId now newTransactionData st)) d =
     (if d \<in> fst ` set (breakdown newTransactionData)
      then Some (vaultCount (vault st) d + signedCount d newTransactionData)
      else map_of (vault st) d)"
  by (simp add: addTransaction_def Let_def map_of_vaultAfterAdd)

lemma transactions_aliceLedger: "transactions aliceLedger = [aliceCredit]"
  by (simp add: transactions_def aliceLedger_def aliceCredit_def bobCredit_def alice_def
      currentUserName_def)

lemma initialLedger_example:
  "initialLedger exampleDenominations (Some alice) =
     \<lparr>allTransactions = [], vault = [(500, 0), (100, 0), (50, 0), (20, 0)],
      currentUser = Some alice, consoleErrors = []\<rparr>"
  by (simp add: initialLedger_def initializeVault_def exampleDenominations_def)

section \<open>The vault is not clamped at zero\<close>

text \<open>
  Claim C2. From a zero vault, adding a cash credit with breakdown \<open>{500: 1}\<close> makes the
  vault's count of 500 equal to 1; adding a cash debit with the same breakdown makes it
  0; adding a second such debit makes it -1. The other fields of the three records, the
  generated ids and dates, the configured denominations and the rest of the state are
  arbitrary.
\<close>

theorem addTransaction_vault_goes_negative:
  "let st1 = addTransaction id1 now1
               (a\<lparr>type_tx := Credit, paymentMethod := Cash, breakdown := [(500, 1)]\<rparr>)
               (st\<lparr>vault := initializeVault DENOMINATIONS\<rparr>);
       st2 = addTransaction id2 now2
               (b\<lparr>type_tx := Debit, paymentMethod := Cash, breakdown := [(500, 1)]\<rparr>) st1;
       st3 = addTransaction id3 now3
               (c\<lparr>type_tx := Debit, paymentMethod := Cash, breakdown := [(500, 1)]\<rparr>) st2
   in map_of (vault st1) 500 = Some 1 \<and>
      map_of (vault st2) 500 = Some 0 \<and>
      map_of (vault st3) 500 = Some (- 1)"
  by (simp add: Let_def vault_addTransaction_cash vaultCount_def signedCount_def
      map_of_initializeVault)







section \<open>Updating a record with itself\<close>



section \<open>Deleting a record and adding it again\<close>



section \<open>Updating an id that the filtered list does not hold\<close>

text \<open>
  Claim C7. When \<^verbatim>\<open>updateTransaction\<close> is called with an id that no transaction of
  the filtered list has, the vault is left as it is and the error message is logged; the
  call returns a state like any other call. If a record of the unfiltered store has the
  id, the replacement still happens: afterwards the store holds the new record, and
  every stored record with that id is the new record.
\<close>

theorem updateTransaction_unknown_id:
  assumes "id_tx u \<notin> id_tx ` set (transactions st)"
  shows "vault (updateTransaction DENOMINATIONS u st) = vault st \<and>
         consoleErrors (updateTransaction DENOMINATIONS u st) =
           consoleErrors st @ [''Original transaction not found for vault update.''] \<and>
         (id_tx u \<in> id_tx ` set (allTransactions st) \<longrightarrow>
            u \<in> set (allTransactions (updateTransaction DENOMINATIONS u st)) \<and>
            (\<forall>tx. tx \<in> set (allTransactions (updateTransaction DENOMINATIONS u st)) \<and>
                  id_tx tx = id_tx u \<longrightarrow> tx = u))"
proof -
  from assms have "find (\<lambda>tx. id_tx tx = id_tx u) (transactions st) = None"
    by (simp add: find_None_iff) (metis imageI)
  then show ?thesis
    by (auto simp: updateTransaction_def sortByDateDesc_def)
qed

theorem updateTransaction_unknown_id_witness:
  "id_tx bobCredit \<notin> id_tx ` set (transactions aliceLedger) \<and>
   id_tx bobCredit \<in> id_tx ` set (allTransactions aliceLedger) \<and>
   vault (updateTransaction exampleDenominations (bobCredit\<lparr>breakdown := [(500, 5)]\<rparr>) aliceLedger) =
     vault aliceLedger \<and>
   consoleErrors (updateTransaction exampleDenominations (bobCredit\<lparr>breakdown := [(500, 5)]\<rparr>) aliceLedger) =
     [''Original transaction not found for vault update.''] \<and>
   bobCredit\<lparr>breakdown := [(500, 5)]\<rparr> \<in>
     set (allTransactions (updateTransaction exampleDenominations (bobCredit\<lparr>breakdown := [(500, 5)]\<rparr>) aliceLedger))"
proof -
  have hid: "id_tx (bobCredit\<lparr>breakdown := [(500, 5)]\<rparr>) \<notin> id_tx ` set (transactions aliceLedger)"
    by (simp add: transactions_aliceLedger) (simp add: aliceCredit_def bobCredit_def)
  have stored: "id_tx (bobCredit\<lparr>breakdown := [(500, 5)]\<rparr>) \<in> id_tx ` set (allTransactions aliceLedger)"
    by (simp add: aliceLedger_def)
  have log: "consoleErrors aliceLedger = []"
    by (simp add: aliceLedger_def)
  from updateTransaction_unknown_id [OF hid, of exampleDenominations] hid stored log
  show ?thesis by simp
qed

section \<open>The vault as the signed sum over the ledger\<close>

lemma ledgerSum_mset: "ledgerSum d xs = sum_mset (image_mset (signedCount d) (mset xs))"
  by (simp add: ledgerSum_def sum_mset_sum_list [symmetric])

lemma ledgerSum_sortByDateDesc [simp]: "ledgerSum d (sortByDateDesc xs) = ledgerSum d xs"
  by (simp add: ledgerSum_mset sortByDateDesc_def)

lemma set_sortByDateDesc [simp]: "set (sortByDateDesc xs) = set xs"
  by (simp add: sortByDateDesc_def)

lemma distinct_ids_sortByDateDesc [simp]:
  "distinct (map id_tx (sortByDateDesc xs)) = distinct (map id_tx xs)"
proof -
  have "mset (map id_tx (sortByDateDesc xs)) = mset (map id_tx xs)"
    by (simp add: sortByDateDesc_def)
  then show ?thesis by (rule mset_eq_imp_distinct_iff)
qed

lemma ledgerSum_simps [simp]:
  "ledgerSum d [] = 0"
  "ledgerSum d (x # xs) = signedCount d x + ledgerSum d xs"
  "ledgerSum d (xs @ ys) = ledgerSum d xs + ledgerSum d ys"
  by (simp_all add: ledgerSum_def)
















section \<open>The exposed list is sorted\<close>

lemma sortedByDateDesc_sortByDateDesc [simp]: "sortedByDateDesc (sortByDateDesc xs)"
proof -
  have "sorted (map (\<lambda>tx. - date tx) (sort_key (\<lambda>tx. - date tx) xs))"
    by (rule sorted_sort_key)
  then show ?thesis
    by (simp add: sorted_map sortedByDateDesc_def sortByDateDesc_def)
qed






section \<open>Ids and dates under updateTransaction\<close>

lemma allTransactions_updateTransaction:
  "allTransactions (updateTransaction D u st) =
     sortByDateDesc (map (\<lambda>tx. if id_tx tx = id_tx u then u else tx) (allTransactions st))"
  by (simp add: updateTransaction_def)

text \<open>
  Claim C8, amended. \<^verbatim>\<open>addTransaction\<close> gives the new record the generated id and
  the current time and leaves the id and date of every stored record alone.
  \<^verbatim>\<open>updateTransaction\<close> never alters the id of a stored record, and it keeps the
  date of every record whose id is not the updated one; the record with the updated id
  is replaced by the record passed in, so its date afterwards is the date that record
  carries. Stated on the store as a whole: its (id, date) pairs after an update are
  those before it, with the date of the passed record at the updated id.
\<close>

theorem updateTransaction_ids_and_dates:
  "mset (map (\<lambda>tx. (id_tx tx, date tx)) (allTransactions (addTransaction newId now e st))) =
     mset (map (\<lambda>tx. (id_tx tx, date tx)) (allTransactions st)) + {#(newId, now)#} \<and>
   mset (map (\<lambda>tx. (id_tx tx, date tx)) (allTransactions (updateTransaction D u st))) =
     mset (map (\<lambda>tx. (id_tx tx, if id_tx tx = id_tx u then date u else date tx)) (allTransactions st))"
proof -
  have sorted: "mset (map f (sortByDateDesc xs)) = mset (map f xs)"
    for f :: "Transaction \<Rightarrow> string \<times> int" and xs
    by (simp add: sortByDateDesc_def)
  have "map (\<lambda>tx. (id_tx tx, date tx)) (map (\<lambda>tx. if id_tx tx = id_tx u then u else tx) xs) =
      map (\<lambda>tx. (id_tx tx, if id_tx tx = id_tx u then date u else date tx)) xs" for xs
    by (induction xs) auto
  then have "mset (map (\<lambda>tx. (id_tx tx, date tx))
        (map (\<lambda>tx. if id_tx tx = id_tx u then u else tx) (allTransactions st))) =
      mset (map (\<lambda>tx. (id_tx tx, if id_tx tx = id_tx u then date u else date tx))
        (allTransactions st))"
    by (simp only:)
  with sorted have upd: "mset (map (\<lambda>tx. (id_tx tx, date tx)) (allTransactions (updateTransaction D u st))) =
     mset (map (\<lambda>tx. (id_tx tx, if id_tx tx = id_tx u then date u else date tx)) (allTransactions st))"
    by (simp only: allTransactions_updateTransaction)
  have "allTransactions (addTransaction newId now e st) =
      sortByDateDesc (allTransactions st @ [e\<lparr>id_tx := newId, date := now\<rparr>])"
    by (simp add: addTransaction_def Let_def)
  then have "mset (map (\<lambda>tx. (id_tx tx, date tx)) (allTransactions (addTransaction newId now e st))) =
      mset (map (\<lambda>tx. (id_tx tx, date tx)) (allTransactions st @ [e\<lparr>id_tx := newId, date := now\<rparr>]))"
    by (simp only: sorted)
  then have "mset (map (\<lambda>tx. (id_tx tx, date tx)) (allTransactions (addTransaction newId now e st))) =
     mset (map (\<lambda>tx. (id_tx tx, date tx)) (allTransactions st)) + {#(newId, now)#}"
    by simp
  with upd show ?thesis by simp
qed

text \<open>
  The date is not protected: updating the record \<open>txn_1\<close>, stored with date 1, with a
  copy that carries date 7 leaves the store holding \<open>txn_1\<close> with date 7.
\<close>

theorem updateTransaction_changes_date_counterexample:
  "map (\<lambda>tx. (id_tx tx, date tx)) (allTransactions aliceLedger) = [(''txn_2'', 2), (''txn_1'', 1)] \<and>
   map (\<lambda>tx. (id_tx tx, date tx))
     (allTransactions (updateTransaction exampleDenominations (aliceCredit\<lparr>date := 7\<rparr>) aliceLedger)) =
     [(''txn_1'', 7), (''txn_2'', 2)]"
  by (simp add: updateTransaction_def aliceLedger_def aliceCredit_def bobCredit_def
      sortByDateDesc_def)

section \<open>Sanitizing a persisted breakdown\<close>

lemma map_of_fold_sanitize:
  "map_of (fold (\<lambda>k v. case g k of Some c \<Rightarrow> AList.update k c v | None \<Rightarrow> v) ks w) d =
     (if d \<in> set ks then (case g d of Some c \<Rightarrow> Some c | None \<Rightarrow> map_of w d) else map_of w d)"
  by (induction ks arbitrary: w) (auto simp: update_conv' split: option.splits)

lemma map_of_sanitizeBreakdown:
  assumes "truthy b" "typeofObject b"
  shows "map_of (sanitizeBreakdown D Cash (Some b)) d =
     (if d \<in> set D then sanitizeCount (getProp b (Index d)) else None)"
  using assms
  by (simp add: sanitizeBreakdown_def map_of_fold_sanitize split: option.splits)

lemma floor_example: "\<lfloor>37 / 10 :: rat\<rfloor> = 3"
  by code_simp

text \<open>
  Claim C5. With 20 among the configured denominations, migrating a persisted cash
  transaction whose raw breakdown maps 100 to -5, 50 to the string \<open>x\<close> and 20 to 3.7
  gives the breakdown \<open>{20: 3}\<close> and nothing else. In general, for every raw breakdown
  of a cash transaction, a denomination is a key of the sanitized breakdown exactly when
  it is configured and its raw count is a finite number that is not negative, and then
  its count is the floor of the raw count; a negative, non-finite or non-numeric count
  leaves the key out.
\<close>

theorem sanitized_breakdown_drops_and_floors:
  assumes "20 \<in> set DENOMINATIONS"
  shows "(\<exists>tx. migrate getTime now DENOMINATIONS
             (JObject [(Name ''id'', JString ''t1''),
                       (Name ''paymentMethod'', JString ''cash''),
                       (Name ''breakdown'',
                          JObject [(Index 100, JNumber (Finite (- 5))),
                                   (Index 50, JString ''x''),
                                   (Index 20, JNumber (Finite (37 / 10)))])]) = Some tx \<and>
            map_of (breakdown tx) = [20 \<mapsto> 3]) \<and>
         (\<forall>b d. truthy b \<and> typeofObject b \<longrightarrow>
            map_of (sanitizeBreakdown DENOMINATIONS Cash (Some b)) d =
              (case getProp b (Index d) of
                 Some (JNumber (Finite q)) \<Rightarrow>
                   if d \<in> set DENOMINATIONS \<and> 0 \<le> q then Some \<lfloor>q\<rfloor> else None
               | _ \<Rightarrow> None))"
proof -
  let ?raw = "JObject [(Index 100, JNumber (Finite (- 5))), (Index 50, JString ''x''),
                       (Index 20, JNumber (Finite (37 / 10)))]"
  have general: "map_of (sanitizeBreakdown DENOMINATIONS Cash (Some b)) d =
      (case getProp b (Index d) of
         Some (JNumber (Finite q)) \<Rightarrow>
           if d \<in> set DENOMINATIONS \<and> 0 \<le> q then Some \<lfloor>q\<rfloor> else None
       | _ \<Rightarrow> None)" if "truthy b" "typeofObject b" for b d
    using that
    by (simp add: map_of_sanitizeBreakdown sanitizeCount_def
        split: option.splits json.splits jsnumber.splits)
  have "map_of (sanitizeBreakdown DENOMINATIONS Cash (Some ?raw)) d = [20 \<mapsto> 3] d" for d
    using assms by (simp add: general floor_example)
  then have "map_of (sanitizeBreakdown DENOMINATIONS Cash (Some ?raw)) = [20 \<mapsto> 3]"
    by (rule ext)
  then have example: "\<exists>tx. migrate getTime now DENOMINATIONS
             (JObject [(Name ''id'', JString ''t1''),
                       (Name ''paymentMethod'', JString ''cash''),
                       (Name ''breakdown'', ?raw)]) = Some tx \<and>
            map_of (breakdown tx) = [20 \<mapsto> 3]"
    by (simp add: migrate_def)
  from example general show ?thesis by blast
qed

theorem sanitized_breakdown_drops_and_floors_witness:
  "20 \<in> set exampleDenominations \<and> truthy rawBreakdown \<and> typeofObject rawBreakdown \<and>
   map_of (sanitizeBreakdown exampleDenominations Cash (Some rawBreakdown)) 100 = None \<and>
   map_of (sanitizeBreakdown exampleDenominations Cash (Some rawBreakdown)) 50 = None \<and>
   map_of (sanitizeBreakdown exampleDenominations Cash (Some rawBreakdown)) 20 = Some 3 \<and>
   sanitizeBreakdown exampleDenominations Cash (Some rawBreakdown) = [(20, 3)]"
proof -
  have d: "20 \<in> set exampleDenominations"
    by (simp add: exampleDenominations_def)
  have b: "truthy rawBreakdown \<and> typeofObject rawBreakdown"
    by (simp add: rawBreakdown_def)
  have run: "sanitizeBreakdown exampleDenominations Cash (Some rawBreakdown) = [(20, 3)]"
    by (simp add: sanitizeBreakdown_def sanitizeCount_def rawBreakdown_def
        exampleDenominations_def floor_example)
  from sanitized_breakdown_drops_and_floors [OF d, of "\<lambda>_. None" 0] b
  have "map_of (sanitizeBreakdown exampleDenominations Cash (Some rawBreakdown)) k =
      (case getProp rawBreakdown (Index k) of
         Some (JNumber (Finite q)) \<Rightarrow>
           if k \<in> set exampleDenominations \<and> 0 \<le> q then Some \<lfloor>q\<rfloor> else None
       | _ \<Rightarrow> None)" for k
    by blast
  from this [of 100] this [of 50] this [of 20] d b run
  show ?thesis
    by (simp add: rawBreakdown_def floor_example)
qed


section \<open>A persisted item that does not parse\<close>

lemma load_reset_cases:
  assumes "item_transactions ls = Some (Malformed s) \<or> item_vault ls = Some (Malformed s)"
    and "s \<noteq> []"
  shows "loadFromLocalStorage getTime now D ls st = resetState D ls st"
proof (cases "loadTransactions getTime now D (item_transactions ls)")
  case None
  then show ?thesis by (simp add: loadFromLocalStorage_def)
next
  case (Some txs)
  with assms have "item_vault ls = Some (Malformed s)"
    by (auto simp: loadTransactions_def)
  with assms(2) have "loadVault D (item_vault ls) = None"
    by (simp add: loadVault_def)
  with Some show ?thesis
    by (simp add: loadFromLocalStorage_def resetState_def Let_def)
qed

text \<open>
  Claim C6. If the text of the transaction item or of the vault item is one on which
  \<^verbatim>\<open>JSON.parse\<close> throws (such as \<open>not json\<close>), the load effect still returns, with
  both items removed from the storage, the transaction list empty and the vault at zero
  for every denomination, whichever of the two items was the malformed one.
\<close>

theorem load_resets_both_on_malformed_item:
  assumes "item_transactions ls = Some (Malformed s) \<or> item_vault ls = Some (Malformed s)"
    and "s \<noteq> []"
  shows "item_transactions (fst (loadFromLocalStorage getTime now DENOMINATIONS ls st)) = None \<and>
         item_vault (fst (loadFromLocalStorage getTime now DENOMINATIONS ls st)) = None \<and>
         allTransactions (snd (loadFromLocalStorage getTime now DENOMINATIONS ls st)) = [] \<and>
         vault (snd (loadFromLocalStorage getTime now DENOMINATIONS ls st)) =
           initializeVault DENOMINATIONS \<and>
         (\<forall>d. vaultCount (vault (snd (loadFromLocalStorage getTime now DENOMINATIONS ls st))) d = 0)"
  by (simp add: load_reset_cases [OF assms] resetState_def vaultCount_initializeVault)

theorem load_resets_both_on_malformed_item_witness:
  "item_transactions corruptedStorage = Some (Malformed ''not json'') \<and>
   ''not json'' \<noteq> [] \<and>
   loadVault exampleDenominations (item_vault corruptedStorage) =
     Some [(500, 3), (100, 0), (50, 0), (20, 0)] \<and>
   loadFromLocalStorage (\<lambda>v. None) 0 exampleDenominations corruptedStorage aliceLedger =
     (\<lparr>item_transactions = None, item_vault = None\<rparr>,
      \<lparr>allTransactions = [], vault = [(500, 0), (100, 0), (50, 0), (20, 0)],
       currentUser = Some alice,
       consoleErrors =
         [''CRITICAL: Corrupted localStorage data detected. Resetting application state.'']\<rparr>)"
proof -
  have item: "item_transactions corruptedStorage = Some (Malformed ''not json'') \<or>
      item_vault corruptedStorage = Some (Malformed ''not json'')"
    by (simp add: corruptedStorage_def)
  have nonempty: "''not json'' \<noteq> []"
    by simp
  have sound: "loadVault exampleDenominations (item_vault corruptedStorage) =
      Some [(500, 3), (100, 0), (50, 0), (20, 0)]"
    by (simp add: loadVault_def corruptedStorage_def exampleDenominations_def
        initializeVault_def sanitizeCount_def)
  have rest: "currentUser (snd (loadFromLocalStorage (\<lambda>v. None) 0 exampleDenominations
        corruptedStorage aliceLedger)) = Some alice \<and>
      consoleErrors (snd (loadFromLocalStorage (\<lambda>v. None) 0 exampleDenominations
        corruptedStorage aliceLedger)) =
        [''CRITICAL: Corrupted localStorage data detected. Resetting application state.'']"
    by (simp add: loadFromLocalStorage_def loadTransactions_def corruptedStorage_def
        resetState_def aliceLedger_def)
  have zero: "initializeVault exampleDenominations = [(500, 0), (100, 0), (50, 0), (20, 0)]"
    by (simp add: initializeVault_def exampleDenominations_def)
  from load_resets_both_on_malformed_item [OF item nonempty, of "\<lambda>v. None" 0 exampleDenominations aliceLedger]
    rest zero
  have "loadFromLocalStorage (\<lambda>v. None) 0 exampleDenominations corruptedStorage aliceLedger =
     (\<lparr>item_transactions = None, item_vault = None\<rparr>,
      \<lparr>allTransactions = [], vault = [(500, 0), (100, 0), (50, 0), (20, 0)],
       currentUser = Some alice,
       consoleErrors =
         [''CRITICAL: Corrupted localStorage data detected. Resetting application state.'']\<rparr>)"
    by (cases "loadFromLocalStorage (\<lambda>v. None) 0 exampleDenominations corruptedStorage aliceLedger")
       (auto intro!: Storage.equality Ledger.equality)
  with item nonempty sound show ?thesis
    by (simp add: corruptedStorage_def)
qed

section \<open>Saving and reloading the vault\<close>

lemma map_of_vaultJson:
  "map_of (map (\<lambda>(k, c). (Index k, f c)) es) (Index d) = map_option f (map_of es d)"
  by (induction es) auto

lemma getProp_vaultJson:
  "getProp (vaultJson v) (Index d) =
     map_option (\<lambda>c. JNumber (Finite (of_int c))) (map_of v d)"
  by (simp add: vaultJson_def map_of_vaultJson map_of_entries)

lemma map_of_loadVault_saved:
  assumes "d \<in> set D"
  shows "\<exists>w. loadVault D (Some (Serialized (vaultJson v))) = Some w \<and>
     map_of w d = (case map_of v d of
                     Some c \<Rightarrow> if 0 \<le> c then Some c else Some 0
                   | None \<Rightarrow> Some 0)"
proof -
  have "sanitizeCount (getProp (vaultJson v) (Index d)) =
      (case map_of v d of Some c \<Rightarrow> if 0 \<le> c then Some c else None | None \<Rightarrow> None)"
    by (simp add: getProp_vaultJson sanitizeCount_def split: option.splits)
  moreover obtain kvs where kv: "vaultJson v = JObject kvs"
    by (simp add: vaultJson_def)
  have "loadVault D (Some (Serialized (vaultJson v))) =
      Some (fold (\<lambda>k sv. case sanitizeCount (getProp (vaultJson v) (Index k)) of
                           Some c \<Rightarrow> AList.update k c sv
                         | None \<Rightarrow> sv)
                 D (initializeVault D))"
    by (simp add: loadVault_def kv)
  ultimately show ?thesis
    using assms
    by (simp add: map_of_fold_sanitize map_of_initializeVault split: option.splits)
qed

text \<open>
  Claim C10. Saving the vault and loading it again is not the identity: for every vault
  in which a configured denomination has a negative count, the vault that the load
  effect builds from the saved item has count 0 for that denomination, and so differs
  from the vault that was saved.
\<close>

theorem negative_count_lost_on_reload:
  assumes "d \<in> set DENOMINATIONS" and "map_of (vault st) d = Some c" and "c < 0"
  shows "map_of (vault (snd (loadFromLocalStorage getTime now DENOMINATIONS (saveVault st ls) st'))) d =
           Some 0 \<and>
         vault (snd (loadFromLocalStorage getTime now DENOMINATIONS (saveVault st ls) st')) \<noteq> vault st"
proof -
  let ?st = "snd (loadFromLocalStorage getTime now DENOMINATIONS (saveVault st ls) st')"
  have "map_of (vault ?st) d = Some 0"
  proof (cases "loadTransactions getTime now DENOMINATIONS (item_transactions (saveVault st ls))")
    case None
    then show ?thesis
      using assms(1)
      by (simp add: loadFromLocalStorage_def resetState_def map_of_initializeVault)
  next
    case (Some txs)
    from map_of_loadVault_saved [OF assms(1), of "vault st"] assms(2,3)
    obtain w where "loadVault DENOMINATIONS (Some (Serialized (vaultJson (vault st)))) = Some w"
      and "map_of w d = Some 0"
      by auto
    with Some show ?thesis
      by (simp add: loadFromLocalStorage_def Let_def saveVault_def)
  qed
  moreover from this assms(2,3) have "vault ?st \<noteq> vault st"
    by auto
  ultimately show ?thesis by simp
qed

theorem negative_count_lost_on_reload_witness:
  "500 \<in> set exampleDenominations \<and>
   map_of (vault (run exampleDenominations [Add ''txn_3'' 3 (aliceCredit\<lparr>type_tx := Debit\<rparr>)]
      (initialLedger exampleDenominations (Some alice)))) 500 = Some (- 1) \<and>
   (- 1 :: int) < 0 \<and>
   map_of (vault (snd (loadFromLocalStorage (\<lambda>v. None) 0 exampleDenominations
      (saveVault (run exampleDenominations [Add ''txn_3'' 3 (aliceCredit\<lparr>type_tx := Debit\<rparr>)]
          (initialLedger exampleDenominations (Some alice)))
        \<lparr>item_transactions = None, item_vault = None\<rparr>)
      (initialLedger exampleDenominations (Some alice))))) 500 = Some 0"
proof -
  have d: "500 \<in> set exampleDenominations"
    by (simp add: exampleDenominations_def)
  have neg: "map_of (vault (run exampleDenominations [Add ''txn_3'' 3 (aliceCredit\<lparr>type_tx := Debit\<rparr>)]
      (initialLedger exampleDenominations (Some alice)))) 500 = Some (- 1)"
    unfolding initialLedger_example
    by (simp add: addTransaction_def Let_def vaultAfterAdd_def entries_def aliceCredit_def)
  have lt: "(- 1 :: int) < 0"
    by simp
  from negative_count_lost_on_reload [OF d neg lt] d neg lt
  show ?thesis by simp
qed

end
